theory Spec2Isabelle
  imports Main "HOL-Library.Word"
begin

section \<open>Errors returned through Go's \<open>error\<close> interface\<close>

text \<open>
  A Go \<open>error\<close> is either \<open>nil\<close> or a value of some concrete type; \<open>nil\<close> is
  \<open>None\<close> and a non-nil error is \<open>Some e\<close>. Three shapes of error value occur in
  \<^verbatim>\<open>kubernetes.go\<close>:
  \<^item> \<open>StatusError code message\<close>: a (non-nil) \<^verbatim>\<open>*errors.StatusError\<close> of the API
    machinery, whose \<^verbatim>\<open>Status().Code\<close> is the \<^verbatim>\<open>int32\<close> HTTP status code (a 32-bit
    word);
  \<^item> \<open>UnsupportedResource kind\<close>: the value written \<^verbatim>\<open>UnsupportedResource(kind)\<close> in the
    three dispatch functions;
  \<^item> \<open>OtherError text\<close>: an error of any other dynamic type (transport errors, selector
    parse errors, ...), which the type switch of \<^verbatim>\<open>isResourceNotExist\<close> sends to its
    \<^verbatim>\<open>default\<close> arm.
\<close>

text \<open>
  Modelled from the spec: the declaration of \<^verbatim>\<open>UnsupportedResource\<close> is not in
  \<^verbatim>\<open>kubernetes.go\<close>. The specification lists \<open>UnsupportedResource(kind)\<close> among the error
  kinds (``kind not in the closed set''), so it is an error value that carries the kind.
\<close>

datatype go_error =
    StatusError "32 word" string
  | UnsupportedResource string
  | OtherError string

text \<open>
  \<^verbatim>\<open>
  func isResourceNotExist(err error) bool {
      switch err := err.(type) {
      case *errors.StatusError:
          if err.Status().Code == 404 { return true }
          return false
      default:
          return false
      }
  }
  \<close>
\<close>

fun isResourceNotExist :: "go_error \<Rightarrow> bool" where
  "isResourceNotExist (StatusError code message) = (if code = 404 then True else False)"
| "isResourceNotExist (UnsupportedResource kind) = False"
| "isResourceNotExist (OtherError text) = False"

section \<open>The cluster client\<close>

text \<open>
  The typed sub-clients that \<^verbatim>\<open>kubernetes.go\<close> reaches through the clientset, named by
  API group and resource; all but \<^verbatim>\<open>Core().Namespaces()\<close> take the namespace.
\<close>

datatype typed_client =
    CoreNamespaces
  | ExtensionsDeployments string
  | CoreServices string
  | BatchJobs string
  | CorePersistentVolumeClaims string
  | CoreConfigMaps string
  | AppsPetSets string
  | ExtensionsReplicaSets string
  | CorePods string

text \<open>
  The dynamic type of an object handed to a create call, with its content kept as an
  opaque string. \<open>Unrelated\<close> stands for a value of any other dynamic type (including a
  nil interface), on which every type assertion of \<^verbatim>\<open>createResource\<close> panics.
\<close>

datatype k8s_object =
    V1Namespace string
  | V1beta1Deployment string
  | V1Service string
  | V1batchJob string
  | V1PersistentVolumeClaim string
  | V1ConfigMap string
  | V1alpha1PetSet string
  | Unrelated string

text \<open>
  \<^verbatim>\<open>api.NewDeleteOptions(grace)\<close> builds the options of a delete call from a grace period
  in seconds (\<^verbatim>\<open>int64\<close>); the options are identified by that argument.
  \<^verbatim>\<open>api.ListOptions{LabelSelector: selector}\<close> carries a parsed label selector, whose type
  \<open>'sel\<close> is left open.
\<close>

datatype delete_options = NewDeleteOptions "64 word"

datatype 'sel list_options = ListOptions 'sel

datatype 'sel request =
    GetCall typed_client string
  | CreateCall typed_client k8s_object
  | DeleteCall typed_client string delete_options
  | ListCall typed_client "'sel list_options"

datatype response =
    Succeeded
  | Failed go_error
  | Items "string list"

type_synonym 'sel event = "'sel request \<times> response"

text \<open>
  The clientset is the environment of the program: each call reads and may change the
  cluster state \<open>'s\<close>. A get, create or delete returns an error or nil (the returned object
  is discarded by every caller in the file); a list returns an error or the names of the
  items found.
\<close>

record ('s, 'sel) clientset =
  api_get :: "typed_client \<Rightarrow> string \<Rightarrow> 's \<Rightarrow> go_error option \<times> 's"
  api_create :: "typed_client \<Rightarrow> k8s_object \<Rightarrow> 's \<Rightarrow> go_error option \<times> 's"
  api_delete :: "typed_client \<Rightarrow> string \<Rightarrow> delete_options \<Rightarrow> 's \<Rightarrow> go_error option \<times> 's"
  api_list :: "typed_client \<Rightarrow> 'sel list_options \<Rightarrow> 's \<Rightarrow> (go_error + string list) \<times> 's"

text \<open>
  The world threaded through the program: the cluster state and the log of the calls
  issued so far, oldest first, each with what it returned.
\<close>

record ('s, 'sel) world =
  trace :: "'sel event list"
  cluster :: 's

definition response_of :: "go_error option \<Rightarrow> response" where
  "response_of err = (case err of None \<Rightarrow> Succeeded | Some e \<Rightarrow> Failed e)"

definition call_get ::
  "('s, 'sel) clientset \<Rightarrow> typed_client \<Rightarrow> string \<Rightarrow> ('s, 'sel) world
    \<Rightarrow> go_error option \<times> ('s, 'sel) world" where
  "call_get kubeClient c name w =
     (case api_get kubeClient c name (cluster w) of
        (err, s) \<Rightarrow>
          (err, \<lparr>trace = trace w @ [(GetCall c name, response_of err)], cluster = s\<rparr>))"

definition call_create ::
  "('s, 'sel) clientset \<Rightarrow> typed_client \<Rightarrow> k8s_object \<Rightarrow> ('s, 'sel) world
    \<Rightarrow> go_error option \<times> ('s, 'sel) world" where
  "call_create kubeClient c obj w =
     (case api_create kubeClient c obj (cluster w) of
        (err, s) \<Rightarrow>
          (err, \<lparr>trace = trace w @ [(CreateCall c obj, response_of err)], cluster = s\<rparr>))"

definition call_delete ::
  "('s, 'sel) clientset \<Rightarrow> typed_client \<Rightarrow> string \<Rightarrow> delete_options \<Rightarrow> ('s, 'sel) world
    \<Rightarrow> go_error option \<times> ('s, 'sel) world" where
  "call_delete kubeClient c name opts w =
     (case api_delete kubeClient c name opts (cluster w) of
        (err, s) \<Rightarrow>
          (err, \<lparr>trace = trace w @ [(DeleteCall c name opts, response_of err)], cluster = s\<rparr>))"

definition call_list ::
  "('s, 'sel) clientset \<Rightarrow> typed_client \<Rightarrow> 'sel list_options \<Rightarrow> ('s, 'sel) world
    \<Rightarrow> (go_error + string list) \<times> ('s, 'sel) world" where
  "call_list kubeClient c opts w =
     (case api_list kubeClient c opts (cluster w) of
        (r, s) \<Rightarrow>
          (r, \<lparr>trace = trace w @
                  [(ListCall c opts, case r of Inl e \<Rightarrow> Failed e | Inr names \<Rightarrow> Items names)],
               cluster = s\<rparr>))"

section \<open>The dispatcher\<close>

text \<open>
  \<^verbatim>\<open>
  func createNamespace(kubeClient *kubernetes.Clientset, namespace string) error {
      _, err := kubeClient.Core().Namespaces().Get(namespace)
      if err == nil { return nil }
      if !isResourceNotExist(err) { return err }
      ns := &v1.Namespace{ObjectMeta: v1.ObjectMeta{Name: namespace}}
      _, err = kubeClient.Core().Namespaces().Create(ns)
      return err
  }
  \<close>
\<close>

definition createNamespace ::
  "('s, 'sel) clientset \<Rightarrow> string \<Rightarrow> ('s, 'sel) world \<Rightarrow> go_error option \<times> ('s, 'sel) world" where
  "createNamespace kubeClient namespace w =
     (case call_get kubeClient CoreNamespaces namespace w of
        (None, w1) \<Rightarrow> (None, w1)
      | (Some err, w1) \<Rightarrow>
          if \<not> isResourceNotExist err then (Some err, w1)
          else call_create kubeClient CoreNamespaces (V1Namespace namespace) w1)"

text \<open>
  \<^verbatim>\<open>checkResourceExist\<close>: the switch picks the get of the kind (or returns from the
  \<^verbatim>\<open>default\<close> arm without calling anything), then the error of the get is classified.
\<close>

definition checkResourceExist ::
  "('s, 'sel) clientset \<Rightarrow> string \<Rightarrow> string \<Rightarrow> string \<Rightarrow> ('s, 'sel) world
    \<Rightarrow> (bool \<times> go_error option) \<times> ('s, 'sel) world" where
  "checkResourceExist kubeClient kind name namespace w =
     (case
        (if kind = ''deployment'' then
           Some (call_get kubeClient (ExtensionsDeployments namespace) name w)
         else if kind = ''service'' then
           Some (call_get kubeClient (CoreServices namespace) name w)
         else if kind = ''job'' then
           Some (call_get kubeClient (BatchJobs namespace) name w)
         else if kind = ''persistentvolumeclaim'' then
           Some (call_get kubeClient (CorePersistentVolumeClaims namespace) name w)
         else if kind = ''configmap'' then
           Some (call_get kubeClient (CoreConfigMaps namespace) name w)
         else if kind = ''petset'' then
           Some (call_get kubeClient (AppsPetSets namespace) name w)
         else None)
      of
        None \<Rightarrow> ((False, Some (UnsupportedResource kind)), w)
      | Some (None, w1) \<Rightarrow> ((True, None), w1)
      | Some (Some err, w1) \<Rightarrow>
          if isResourceNotExist err then ((False, None), w1) else ((False, Some err), w1))"

text \<open>
  \<^verbatim>\<open>createResource\<close> takes its payload as \<^verbatim>\<open>interface{}\<close> and asserts the type the kind
  needs; a failed assertion panics before any call is made.
\<close>

datatype 'a outcome = Returned 'a | Panicked

definition createResource ::
  "('s, 'sel) clientset \<Rightarrow> string \<Rightarrow> string \<Rightarrow> k8s_object \<Rightarrow> ('s, 'sel) world
    \<Rightarrow> go_error option outcome \<times> ('s, 'sel) world" where
  "createResource kubeClient kind namespace resourceData w =
     (let create = (\<lambda>c. case call_create kubeClient c resourceData w of
                           (err, w1) \<Rightarrow> (Returned err, w1)) in
      if kind = ''deployment'' then
        (case resourceData of V1beta1Deployment d \<Rightarrow> create (ExtensionsDeployments namespace)
                            | _ \<Rightarrow> (Panicked, w))
      else if kind = ''service'' then
        (case resourceData of V1Service d \<Rightarrow> create (CoreServices namespace)
                            | _ \<Rightarrow> (Panicked, w))
      else if kind = ''job'' then
        (case resourceData of V1batchJob d \<Rightarrow> create (BatchJobs namespace)
                            | _ \<Rightarrow> (Panicked, w))
      else if kind = ''persistentvolumeclaim'' then
        (case resourceData of V1PersistentVolumeClaim d \<Rightarrow> create (CorePersistentVolumeClaims namespace)
                            | _ \<Rightarrow> (Panicked, w))
      else if kind = ''configmap'' then
        (case resourceData of V1ConfigMap d \<Rightarrow> create (CoreConfigMaps namespace)
                            | _ \<Rightarrow> (Panicked, w))
      else if kind = ''petset'' then
        (case resourceData of V1alpha1PetSet d \<Rightarrow> create (AppsPetSets namespace)
                            | _ \<Rightarrow> (Panicked, w))
      else (Returned (Some (UnsupportedResource kind)), w))"

text \<open>
  The two \<^verbatim>\<open>for ... range ....Items\<close> loops of the cascades: delete each listed child in
  order, returning at the first error.
\<close>

fun deleteEach ::
  "('s, 'sel) clientset \<Rightarrow> typed_client \<Rightarrow> delete_options \<Rightarrow> string list \<Rightarrow> ('s, 'sel) world
    \<Rightarrow> go_error option \<times> ('s, 'sel) world" where
  "deleteEach kubeClient c deleteOptions [] w = (None, w)"
| "deleteEach kubeClient c deleteOptions (item # items) w =
     (case call_delete kubeClient c item deleteOptions w of
        (Some err, w1) \<Rightarrow> (Some err, w1)
      | (None, w1) \<Rightarrow> deleteEach kubeClient c deleteOptions items w1)"

text \<open>
  \<^verbatim>\<open>labels.Parse\<close> is a pure function of the selector string; it is a parameter of the
  two cascades.
\<close>

definition destroyDeployment ::
  "(string \<Rightarrow> go_error + 'sel) \<Rightarrow> ('s, 'sel) clientset \<Rightarrow> string \<Rightarrow> string \<Rightarrow> ('s, 'sel) world
    \<Rightarrow> go_error option \<times> ('s, 'sel) world" where
  "destroyDeployment labels_Parse kubeClient name namespace w =
     (let deleteOptions = NewDeleteOptions 0 in
      case call_delete kubeClient (ExtensionsDeployments namespace) name deleteOptions w of
        (Some err, w1) \<Rightarrow> (Some err, w1)
      | (None, w1) \<Rightarrow>
          (case labels_Parse (''name='' @ name) of
             Inl err \<Rightarrow> (Some err, w1)
           | Inr selector \<Rightarrow>
               (case call_list kubeClient (ExtensionsReplicaSets namespace) (ListOptions selector) w1 of
                  (Inl err, w2) \<Rightarrow> (Some err, w2)
                | (Inr replicaSets, w2) \<Rightarrow>
                    deleteEach kubeClient (ExtensionsReplicaSets namespace) deleteOptions
                      replicaSets w2)))"

definition destroyJob ::
  "(string \<Rightarrow> go_error + 'sel) \<Rightarrow> ('s, 'sel) clientset \<Rightarrow> string \<Rightarrow> string \<Rightarrow> ('s, 'sel) world
    \<Rightarrow> go_error option \<times> ('s, 'sel) world" where
  "destroyJob labels_Parse kubeClient name namespace w =
     (let deleteOptions = NewDeleteOptions 0 in
      case call_delete kubeClient (BatchJobs namespace) name deleteOptions w of
        (Some err, w1) \<Rightarrow> (Some err, w1)
      | (None, w1) \<Rightarrow>
          (case labels_Parse (''job-name='' @ name) of
             Inl err \<Rightarrow> (Some err, w1)
           | Inr selector \<Rightarrow>
               (case call_list kubeClient (CorePods namespace) (ListOptions selector) w1 of
                  (Inl err, w2) \<Rightarrow> (Some err, w2)
                | (Inr pods, w2) \<Rightarrow>
                    deleteEach kubeClient (CorePods namespace) deleteOptions pods w2)))"

definition destroyResource ::
  "(string \<Rightarrow> go_error + 'sel) \<Rightarrow> ('s, 'sel) clientset \<Rightarrow> string \<Rightarrow> string \<Rightarrow> string
    \<Rightarrow> ('s, 'sel) world \<Rightarrow> go_error option \<times> ('s, 'sel) world" where
  "destroyResource labels_Parse kubeClient kind name namespace w =
     (let deleteOptions = NewDeleteOptions 0 in
      if kind = ''deployment'' then destroyDeployment labels_Parse kubeClient name namespace w
      else if kind = ''service'' then
        call_delete kubeClient (CoreServices namespace) name deleteOptions w
      else if kind = ''job'' then destroyJob labels_Parse kubeClient name namespace w
      else if kind = ''persistentvolumeclaim'' then
        call_delete kubeClient (CorePersistentVolumeClaims namespace) name deleteOptions w
      else if kind = ''configmap'' then
        call_delete kubeClient (CoreConfigMaps namespace) name deleteOptions w
      else if kind = ''petset'' then
        call_delete kubeClient (AppsPetSets namespace) name deleteOptions w
      else (Some (UnsupportedResource kind), w))"

section \<open>The client loader and the manifest decoder\<close>

text \<open>
  \<^verbatim>\<open>loadKubernetesClient\<close> builds the loading rules and the overrides and hands them
  to \<^verbatim>\<open>clientcmd\<close>; what \<^verbatim>\<open>clientcmd\<close> and \<^verbatim>\<open>kubernetes.NewForConfig\<close> do with
  them is outside this file, so both are parameters. The loading rules are built with
  the field \<^verbatim>\<open>ExplicitPath\<close> only and the overrides start as the zero value.
\<close>

text \<open>
  Modelled from the spec: the declaration of \<^verbatim>\<open>appConfig\<close> is not in
  \<^verbatim>\<open>kubernetes.go\<close>. The specification describes a configuration value exposing
  \<open>configFile\<close> (a path, or empty) and \<open>context\<close> (a name, or empty); the field
  \<^verbatim>\<open>config.context\<close> is \<open>contextName\<close> here.
\<close>

record appConfig =
  configFile :: string
  contextName :: string

record ClientConfigLoadingRules =
  ExplicitPath :: string

record ConfigOverrides =
  CurrentContext :: string

definition loadKubernetesClient ::
  "(ClientConfigLoadingRules \<Rightarrow> ConfigOverrides \<Rightarrow> go_error + 'cfg) \<Rightarrow> ('cfg \<Rightarrow> go_error + 'cl)
    \<Rightarrow> appConfig \<Rightarrow> go_error + 'cl" where
  "loadKubernetesClient ClientConfig NewForConfig config =
     (let clientConfigLoader = \<lparr>ExplicitPath = configFile config\<rparr>;
          configOverrides = \<lparr>CurrentContext = []\<rparr>;
          configOverrides =
            (if contextName config \<noteq> []
             then configOverrides\<lparr>CurrentContext := contextName config\<rparr>
             else configOverrides)
      in case ClientConfig clientConfigLoader configOverrides of
           Inl err \<Rightarrow> Inl err
         | Inr kubeConfig \<Rightarrow> NewForConfig kubeConfig)"

text \<open>
  \<^verbatim>\<open>loadKubernetesResource\<close> allocates a zero descriptor and lets \<^verbatim>\<open>yaml.Unmarshal\<close>
  fill it in place; the YAML library is a parameter that takes the bytes and the
  descriptor and returns its error and the descriptor as it left it.
\<close>

record Metadata =
  Name :: string
  Namespace :: string

record KubernetesResource =
  Kind :: string
  Metadata :: Metadata

definition zero_resource :: KubernetesResource where
  "zero_resource = \<lparr>Kind = [], Metadata = \<lparr>Name = [], Namespace = []\<rparr>\<rparr>"

definition loadKubernetesResource ::
  "(string \<Rightarrow> KubernetesResource \<Rightarrow> go_error option \<times> KubernetesResource) \<Rightarrow> string
    \<Rightarrow> go_error + KubernetesResource" where
  "loadKubernetesResource yaml_Unmarshal data =
     (let r = zero_resource in
      case yaml_Unmarshal data r of
        (Some err, r') \<Rightarrow> Inl err
      | (None, r') \<Rightarrow> Inr r')"

text \<open>The closed set of kinds the three switches recognise.\<close>

definition recognized_kinds :: "string set" where
  "recognized_kinds =
     {''deployment'', ''service'', ''job'', ''persistentvolumeclaim'', ''configmap'', ''petset''}"

text \<open>
  A concrete client for evaluating the program: the cluster state counts the calls
  received so far; a get is answered from \<open>get_answer\<close>, a create succeeds, a delete
  fails when the name is in \<open>failing\<close>, and a list fails when its selector is in
  \<open>failing\<close> and returns \<open>listed\<close> otherwise.
\<close>

definition test_client ::
  "(string \<Rightarrow> go_error option) \<Rightarrow> string set \<Rightarrow> string list \<Rightarrow> (nat, string) clientset" where
  "test_client get_answer failing listed =
     \<lparr>api_get = (\<lambda>c name n. (get_answer name, Suc n)),
      api_create = (\<lambda>c obj n. (None, Suc n)),
      api_delete = (\<lambda>c name opts n.
         (if name \<in> failing then Some (OtherError ''delete failed'') else None, Suc n)),
      api_list = (\<lambda>c opts n.
         (case opts of ListOptions selector \<Rightarrow>
            if selector \<in> failing then Inl (OtherError ''list failed'') else Inr listed,
          Suc n))\<rparr>"

text \<open>A stand-in for \<^verbatim>\<open>labels.Parse\<close>: a selector string with a space in it is rejected.\<close>

definition test_parse :: "string \<Rightarrow> go_error + string" where
  "test_parse s = (if CHR '' '' \<in> set s then Inl (OtherError ''parse failed'') else Inr s)"

definition world0 :: "(nat, string) world" where
  "world0 = \<lparr>trace = [], cluster = 0\<rparr>"

section \<open>Reading the call log\<close>

text \<open>The calls a run issued: what the log gained between the world before and after.\<close>

definition issued :: "('s, 'sel) world \<Rightarrow> ('s, 'sel) world \<Rightarrow> 'sel event list" where
  "issued w w' = drop (length (trace w)) (trace w')"


text \<open>The names returned by the list call of a cascade, the second call of its log.\<close>

definition listed :: "'sel event list \<Rightarrow> string list" where
  "listed evs = (case evs of e1 # (q, Items names) # rest \<Rightarrow> names | _ \<Rightarrow> [])"



text \<open>A request asks for a zero grace period if it is not a delete or is a delete with
  \<^verbatim>\<open>api.NewDeleteOptions(0)\<close>.\<close>

fun zero_grace :: "'sel request \<Rightarrow> bool" where
  "zero_grace (DeleteCall c name opts) = (opts = NewDeleteOptions 0)"
| "zero_grace (GetCall c name) = True"
| "zero_grace (CreateCall c obj) = True"
| "zero_grace (ListCall c opts) = True"

text \<open>
  What the specification means by deleting each returned child: hand the cluster one
  delete per name, in the order of the list, each with the given options, and stop at the
  first delete that fails. The value is the error of that delete (nil if none failed), the
  calls made with what each returned, and the cluster state the last call left.
\<close>

fun issue_deletes ::
  "('s, 'sel) clientset \<Rightarrow> typed_client \<Rightarrow> delete_options \<Rightarrow> string list \<Rightarrow> 's
    \<Rightarrow> go_error option \<times> 'sel event list \<times> 's" where
  "issue_deletes kubeClient c opts [] s = (None, [], s)"
| "issue_deletes kubeClient c opts (item # items) s =
     (case api_delete kubeClient c item opts s of
        (Some err, s1) \<Rightarrow> (Some err, [(DeleteCall c item opts, Failed err)], s1)
      | (None, s1) \<Rightarrow>
          (case issue_deletes kubeClient c opts items s1 of
             (result, evs, s2) \<Rightarrow> (result, (DeleteCall c item opts, Succeeded) # evs, s2)))"

text \<open>A client on which every call succeeds and a list returns \<open>names\<close>.\<close>

definition quiet_client :: "string list \<Rightarrow> (nat, string) clientset" where
  "quiet_client names = test_client (\<lambda>name. None) {} names"

section \<open>Existence checks\<close>

lemma call_get_unfold:
  "api_get kubeClient c name (cluster w) = (err, s) \<Longrightarrow>
   call_get kubeClient c name w =
     (err, \<lparr>trace = trace w @ [(GetCall c name, response_of err)], cluster = s\<rparr>)"
  by (simp add: call_get_def)

text \<open>
  C10. The result pair of \<^verbatim>\<open>checkResourceExist\<close> is consistent for every input: a true
  boolean comes with a nil error, and a non-nil error comes with a false boolean.
\<close>

theorem checkResourceExist_pair_consistent:
  "(fst (fst (checkResourceExist kubeClient kind name namespace w))
      \<longrightarrow> snd (fst (checkResourceExist kubeClient kind name namespace w)) = None)
   \<and> (snd (fst (checkResourceExist kubeClient kind name namespace w)) \<noteq> None
      \<longrightarrow> \<not> fst (fst (checkResourceExist kubeClient kind name namespace w)))"
  by (simp add: checkResourceExist_def split: option.splits prod.splits)

theorem checkResourceExist_pair_consistent_witness:
  "fst (fst (checkResourceExist (test_client (\<lambda>n. None) {} []) ''service'' ''api'' ''prod'' world0))
   \<and> snd (fst (checkResourceExist (test_client (\<lambda>n. None) {} []) ''service'' ''api'' ''prod''
         world0)) = None
   \<and> snd (fst (checkResourceExist (test_client (\<lambda>n. Some (OtherError ''timeout'')) {} [])
         ''service'' ''api'' ''prod'' world0)) \<noteq> None
   \<and> \<not> fst (fst (checkResourceExist (test_client (\<lambda>n. Some (OtherError ''timeout'')) {} [])
         ''service'' ''api'' ''prod'' world0))"
  using checkResourceExist_pair_consistent
          [of "test_client (\<lambda>n. None) {} []" "''service''" "''api''" "''prod''" world0]
        checkResourceExist_pair_consistent
          [of "test_client (\<lambda>n. Some (OtherError ''timeout'')) {} []" "''service''" "''api''"
              "''prod''" world0]
  by (simp add: checkResourceExist_def call_get_def test_client_def world0_def)

lemma isResourceNotExist_iff:
  "isResourceNotExist e \<longleftrightarrow> (\<exists>message. e = StatusError 404 message)"
  by (cases e) auto

text \<open>
  C1. For every recognized kind, \<^verbatim>\<open>checkResourceExist\<close> issues exactly the get of that
  kind and returns \<open>(true, nil)\<close> when the get succeeds, \<open>(false, nil)\<close> when and only when
  the error of the get is a status error with code 404, and \<open>(false, err)\<close> with the error
  of the get unchanged for every other error.
\<close>

theorem checkResourceExist_classifies:
  assumes "kind \<in> recognized_kinds"
  shows "\<exists>c err s.
           (kind = ''deployment'' \<longrightarrow> c = ExtensionsDeployments namespace)
         \<and> (kind = ''service'' \<longrightarrow> c = CoreServices namespace)
         \<and> (kind = ''job'' \<longrightarrow> c = BatchJobs namespace)
         \<and> (kind = ''persistentvolumeclaim'' \<longrightarrow> c = CorePersistentVolumeClaims namespace)
         \<and> (kind = ''configmap'' \<longrightarrow> c = CoreConfigMaps namespace)
         \<and> (kind = ''petset'' \<longrightarrow> c = AppsPetSets namespace)
         \<and> api_get kubeClient c name (cluster w) = (err, s)
         \<and> snd (checkResourceExist kubeClient kind name namespace w) =
              \<lparr>trace = trace w @ [(GetCall c name, response_of err)], cluster = s\<rparr>
         \<and> (err = None \<longrightarrow>
              fst (checkResourceExist kubeClient kind name namespace w) = (True, None))
         \<and> (\<forall>e. err = Some e \<longrightarrow>
              (fst (checkResourceExist kubeClient kind name namespace w) = (False, None)
                 \<longleftrightarrow> (\<exists>message. e = StatusError 404 message))
            \<and> ((\<nexists>message. e = StatusError 404 message) \<longrightarrow>
                 fst (checkResourceExist kubeClient kind name namespace w) = (False, Some e)))"
proof -
  define c where "c =
    (if kind = ''deployment'' then ExtensionsDeployments namespace
     else if kind = ''service'' then CoreServices namespace
     else if kind = ''job'' then BatchJobs namespace
     else if kind = ''persistentvolumeclaim'' then CorePersistentVolumeClaims namespace
     else if kind = ''configmap'' then CoreConfigMaps namespace
     else AppsPetSets namespace)"
  obtain err s where g: "api_get kubeClient c name (cluster w) = (err, s)"
    by (cases "api_get kubeClient c name (cluster w)")
  have run: "checkResourceExist kubeClient kind name namespace w =
      (case call_get kubeClient c name w of
         (None, w1) \<Rightarrow> ((True, None), w1)
       | (Some e, w1) \<Rightarrow>
           if isResourceNotExist e then ((False, None), w1) else ((False, Some e), w1))"
    using assms by (auto simp: checkResourceExist_def recognized_kinds_def c_def)
  have cg: "call_get kubeClient c name w =
      (err, \<lparr>trace = trace w @ [(GetCall c name, response_of err)], cluster = s\<rparr>)"
    using g by (rule call_get_unfold)
  show ?thesis
    apply (rule exI [of _ c], rule exI [of _ err], rule exI [of _ s])
    apply (simp only: run cg g)
    apply (cases err)
     apply (simp_all add: c_def isResourceNotExist_iff)
    done
qed

theorem checkResourceExist_classifies_witness:
  "''service'' \<in> recognized_kinds
   \<and> (\<exists>c err s.
         c = CoreServices ''prod''
       \<and> api_get (test_client (\<lambda>n. Some (StatusError 404 ''not found'')) {} []) c ''api''
           (cluster world0) = (err, s)
       \<and> err = Some (StatusError 404 ''not found'')
       \<and> checkResourceExist (test_client (\<lambda>n. Some (StatusError 404 ''not found'')) {} [])
           ''service'' ''api'' ''prod'' world0 =
           ((False, None),
            \<lparr>trace = [(GetCall c ''api'', Failed (StatusError 404 ''not found''))], cluster = s\<rparr>))"
  using checkResourceExist_classifies
          [of "''service''" "''prod''" "test_client (\<lambda>n. Some (StatusError 404 ''not found'')) {} []"
              "''api''" world0]
  by (simp add: recognized_kinds_def checkResourceExist_def call_get_def test_client_def
      world0_def response_of_def)

section \<open>Unsupported kinds\<close>

text \<open>
  C3. For every kind outside the closed set, \<^verbatim>\<open>checkResourceExist\<close>,
  \<^verbatim>\<open>createResource\<close> and \<^verbatim>\<open>destroyResource\<close> each return
  \<open>UnsupportedResource kind\<close> and leave the world as it was: no call is logged and the
  cluster state is untouched.
\<close>

theorem unsupported_kind_no_calls:
  assumes "kind \<notin> recognized_kinds"
  shows "checkResourceExist kubeClient kind name namespace w =
           ((False, Some (UnsupportedResource kind)), w)
       \<and> createResource kubeClient kind namespace resourceData w =
           (Returned (Some (UnsupportedResource kind)), w)
       \<and> destroyResource labels_Parse kubeClient kind name namespace w =
           (Some (UnsupportedResource kind), w)"
  using assms
  by (simp add: recognized_kinds_def checkResourceExist_def createResource_def
      destroyResource_def)

theorem unsupported_kind_no_calls_witness:
  "''pod'' \<notin> recognized_kinds
   \<and> checkResourceExist (test_client (\<lambda>n. None) {} []) ''pod'' ''api'' ''prod'' world0 =
       ((False, Some (UnsupportedResource ''pod'')), world0)
   \<and> createResource (test_client (\<lambda>n. None) {} []) ''pod'' ''prod'' (Unrelated ''x'') world0 =
       (Returned (Some (UnsupportedResource ''pod'')), world0)
   \<and> destroyResource test_parse (test_client (\<lambda>n. None) {} []) ''pod'' ''api'' ''prod'' world0 =
       (Some (UnsupportedResource ''pod''), world0)"
proof -
  have h: "''pod'' \<notin> recognized_kinds"
    by (simp add: recognized_kinds_def)
  show ?thesis
    using h unsupported_kind_no_calls [OF h] by simp
qed

section \<open>What a run adds to the log\<close>

lemma call_delete_run:
  "call_delete kubeClient c name opts w = (err, w1) \<Longrightarrow>
   trace w1 = trace w @ [(DeleteCall c name opts, response_of err)]"
  by (auto simp: call_delete_def split: prod.splits)


lemma call_list_run:
  "call_list kubeClient c opts w = (r, w1) \<Longrightarrow>
   trace w1 = trace w @ [(ListCall c opts, case r of Inl e \<Rightarrow> Failed e | Inr names \<Rightarrow> Items names)]"
  by (auto simp: call_list_def split: prod.splits)

lemma issued_append: "trace w' = trace w @ evs \<Longrightarrow> issued w w' = evs"
  by (simp add: issued_def)




lemma parse_failure_deployment:
  assumes d: "api_delete kubeClient (ExtensionsDeployments namespace) name (NewDeleteOptions 0)
                (cluster w) = (None, s)"
      and p: "labels_Parse (''name='' @ name) = Inl err"
  shows "destroyDeployment labels_Parse kubeClient name namespace w =
           (Some err,
            \<lparr>trace = trace w @ [(DeleteCall (ExtensionsDeployments namespace) name
                                   (NewDeleteOptions 0), Succeeded)],
             cluster = s\<rparr>)"
  using d p by (simp add: destroyDeployment_def call_delete_def response_of_def)

lemma parse_failure_job:
  assumes d: "api_delete kubeClient (BatchJobs namespace) name (NewDeleteOptions 0)
                (cluster w) = (None, s)"
      and p: "labels_Parse (''job-name='' @ name) = Inl err"
  shows "destroyJob labels_Parse kubeClient name namespace w =
           (Some err,
            \<lparr>trace = trace w @ [(DeleteCall (BatchJobs namespace) name
                                   (NewDeleteOptions 0), Succeeded)],
             cluster = s\<rparr>)"
  using d p by (simp add: destroyJob_def call_delete_def response_of_def)

lemma deleteEach_zero_grace:
  "\<exists>evs. trace (snd (deleteEach kubeClient c (NewDeleteOptions 0) items w)) = trace w @ evs
     \<and> list_all (\<lambda>ev. zero_grace (fst ev)) evs"
proof (induction items arbitrary: w)
  case Nil
  show ?case by simp
next
  case (Cons item items)
  let ?opts = "NewDeleteOptions 0"
  obtain err w1 where d: "call_delete kubeClient c item ?opts w = (err, w1)"
    by (cases "call_delete kubeClient c item ?opts w")
  note t1 = call_delete_run [OF d]
  show ?case
  proof (cases err)
    case (Some e)
    have run: "deleteEach kubeClient c ?opts (item # items) w = (Some e, w1)"
      using d Some by simp
    show ?thesis
      unfolding run
      by (rule exI [of _ "[(DeleteCall c item ?opts, response_of err)]"]) (simp add: t1)
  next
    case None
    have run: "deleteEach kubeClient c ?opts (item # items) w =
                 deleteEach kubeClient c ?opts items w1"
      using d None by simp
    from Cons.IH [of w1] obtain evs where ih:
      "trace (snd (deleteEach kubeClient c ?opts items w1)) = trace w1 @ evs
       \<and> list_all (\<lambda>ev. zero_grace (fst ev)) evs" ..
    show ?thesis
      unfolding run
      by (rule exI [of _ "(DeleteCall c item ?opts, response_of err) # evs"])
         (simp add: ih t1)
  qed
qed

lemma cascade_zero_grace:
  assumes run: "run =
     (case call_delete kubeClient P name (NewDeleteOptions 0) w of
        (Some err, w1) \<Rightarrow> (Some err, w1)
      | (None, w1) \<Rightarrow>
          (case labels_Parse sel_string of
             Inl err \<Rightarrow> (Some err, w1)
           | Inr selector \<Rightarrow>
               (case call_list kubeClient C (ListOptions selector) w1 of
                  (Inl err, w2) \<Rightarrow> (Some err, w2)
                | (Inr children, w2) \<Rightarrow>
                    deleteEach kubeClient C (NewDeleteOptions 0) children w2)))"
  shows "\<exists>resp evs.
           trace (snd run) = trace w @ (DeleteCall P name (NewDeleteOptions 0), resp) # evs
         \<and> list_all (\<lambda>ev. zero_grace (fst ev)) evs"
proof -
  let ?opts = "NewDeleteOptions 0"
  obtain err w1 where d: "call_delete kubeClient P name ?opts w = (err, w1)"
    by (cases "call_delete kubeClient P name ?opts w")
  note t1 = call_delete_run [OF d]
  show ?thesis
  proof (cases err)
    case (Some e)
    have r: "run = (Some e, w1)"
      using run d Some by simp
    show ?thesis
      unfolding r by (intro exI [of _ "response_of err"] exI [of _ "[]"]) (simp add: t1)
  next
    case None
    show ?thesis
    proof (cases "labels_Parse sel_string")
      case (Inl e)
      have r: "run = (Some e, w1)"
        using run d None Inl by simp
      show ?thesis
        unfolding r by (intro exI [of _ "response_of err"] exI [of _ "[]"]) (simp add: t1)
    next
      case (Inr selector)
      obtain lr w2 where l: "call_list kubeClient C (ListOptions selector) w1 = (lr, w2)"
        by (cases "call_list kubeClient C (ListOptions selector) w1")
      note t2 = call_list_run [OF l]
      show ?thesis
      proof (cases lr)
        case (Inl e)
        have r: "run = (Some e, w2)"
          using run d None Inr l Inl by simp
        show ?thesis
          unfolding r
          by (intro exI [of _ "response_of err"]
                exI [of _ "[(ListCall C (ListOptions selector), Failed e)]"])
             (simp add: t1 t2 Inl)
      next
        case (Inr children)
        have r: "run = deleteEach kubeClient C ?opts children w2"
          using run d None \<open>labels_Parse sel_string = Inr selector\<close> l Inr by simp
        from deleteEach_zero_grace [of kubeClient C children w2] obtain evs where ev:
          "trace (snd (deleteEach kubeClient C ?opts children w2)) = trace w2 @ evs
           \<and> list_all (\<lambda>ev. zero_grace (fst ev)) evs" ..
        show ?thesis
          unfolding r
          by (intro exI [of _ "response_of err"]
                exI [of _ "(ListCall C (ListOptions selector), Items children) # evs"])
             (simp add: ev t1 t2 Inr)
      qed
    qed
  qed
qed

lemma destroyDeployment_zero_grace:
  "\<exists>resp evs.
     trace (snd (destroyDeployment labels_Parse kubeClient name namespace w)) =
       trace w @ (DeleteCall (ExtensionsDeployments namespace) name (NewDeleteOptions 0), resp) # evs
     \<and> list_all (\<lambda>ev. zero_grace (fst ev)) evs"
  by (rule cascade_zero_grace) (unfold destroyDeployment_def Let_def, rule refl)

lemma destroyJob_zero_grace:
  "\<exists>resp evs.
     trace (snd (destroyJob labels_Parse kubeClient name namespace w)) =
       trace w @ (DeleteCall (BatchJobs namespace) name (NewDeleteOptions 0), resp) # evs
     \<and> list_all (\<lambda>ev. zero_grace (fst ev)) evs"
  by (rule cascade_zero_grace) (unfold destroyJob_def Let_def, rule refl)


section \<open>Runs in terms of the calls handed to the cluster\<close>

lemma deleteEach_issue:
  "deleteEach kubeClient c opts items w =
     (fst (issue_deletes kubeClient c opts items (cluster w)),
      \<lparr>trace = trace w @ fst (snd (issue_deletes kubeClient c opts items (cluster w))),
       cluster = snd (snd (issue_deletes kubeClient c opts items (cluster w)))\<rparr>)"
proof (induction items arbitrary: w)
  case Nil
  show ?case by simp
next
  case (Cons item items)
  obtain err s1 where a: "api_delete kubeClient c item opts (cluster w) = (err, s1)"
    by (cases "api_delete kubeClient c item opts (cluster w)")
  have cd: "call_delete kubeClient c item opts w =
              (err, \<lparr>trace = trace w @ [(DeleteCall c item opts, response_of err)], cluster = s1\<rparr>)"
    using a by (simp add: call_delete_def)
  show ?case
  proof (cases err)
    case (Some e)
    show ?thesis
      using a cd Some by (simp add: response_of_def)
  next
    case None
    let ?w1 = "\<lparr>trace = trace w @ [(DeleteCall c item opts, Succeeded)], cluster = s1\<rparr>"
    have step: "deleteEach kubeClient c opts (item # items) w = deleteEach kubeClient c opts items ?w1"
      using cd None by (simp add: response_of_def)
    obtain r evs s2 where i: "issue_deletes kubeClient c opts items s1 = (r, evs, s2)"
      by (cases "issue_deletes kubeClient c opts items s1")
    have ih: "deleteEach kubeClient c opts items ?w1 =
                (r, \<lparr>trace = trace ?w1 @ evs, cluster = s2\<rparr>)"
      using Cons.IH [of ?w1] i by simp
    show ?thesis
      unfolding step ih using a None i by simp
  qed
qed


lemma destroyDeployment_parse_fails:
  "api_delete kubeClient (ExtensionsDeployments namespace) name (NewDeleteOptions 0) (cluster w) = (None, s1)
   \<and> labels_Parse (''name='' @ name) = Inl perr \<longrightarrow>
   destroyDeployment labels_Parse kubeClient name namespace w =
     (Some perr, \<lparr>trace = trace w @ [(DeleteCall (ExtensionsDeployments namespace) name (NewDeleteOptions 0), Succeeded)], cluster = s1\<rparr>)"
  by (simp add: destroyDeployment_def call_delete_def call_list_def deleteEach_issue response_of_def Let_def)




lemma destroyJob_parse_fails:
  "api_delete kubeClient (BatchJobs namespace) name (NewDeleteOptions 0) (cluster w) = (None, s1)
   \<and> labels_Parse (''job-name='' @ name) = Inl perr \<longrightarrow>
   destroyJob labels_Parse kubeClient name namespace w =
     (Some perr, \<lparr>trace = trace w @ [(DeleteCall (BatchJobs namespace) name (NewDeleteOptions 0), Succeeded)], cluster = s1\<rparr>)"
  by (simp add: destroyJob_def call_delete_def call_list_def deleteEach_issue response_of_def Let_def)



section \<open>Namespaces\<close>

text \<open>
  C4. \<^verbatim>\<open>createNamespace\<close> is a get-or-create: it first gets the namespace; when the get
  succeeds it returns nil having issued no create; when the get fails as not-found it
  issues exactly one create and returns what the create returns; when the get fails with
  any other error it returns that error having issued no create; and no run issues a
  delete.
\<close>

theorem createNamespace_get_or_create:
  "\<exists>err s1.
      api_get kubeClient CoreNamespaces namespace (cluster w) = (err, s1)
    \<and> (err = None \<longrightarrow>
         createNamespace kubeClient namespace w =
           (None, \<lparr>trace = trace w @ [(GetCall CoreNamespaces namespace, Succeeded)],
                   cluster = s1\<rparr>))
    \<and> (\<forall>e. err = Some e \<and> isResourceNotExist e \<longrightarrow>
         (\<exists>err2 s2.
            api_create kubeClient CoreNamespaces (V1Namespace namespace) s1 = (err2, s2)
          \<and> createNamespace kubeClient namespace w =
              (err2, \<lparr>trace = trace w @ [(GetCall CoreNamespaces namespace, Failed e),
                                         (CreateCall CoreNamespaces (V1Namespace namespace),
                                          response_of err2)],
                      cluster = s2\<rparr>)))
    \<and> (\<forall>e. err = Some e \<and> \<not> isResourceNotExist e \<longrightarrow>
         createNamespace kubeClient namespace w =
           (Some e, \<lparr>trace = trace w @ [(GetCall CoreNamespaces namespace, Failed e)],
                     cluster = s1\<rparr>))
    \<and> (\<forall>ev \<in> set (issued w (snd (createNamespace kubeClient namespace w))).
          \<forall>c name opts. fst ev \<noteq> DeleteCall c name opts)"
proof -
  obtain err s1 where g: "api_get kubeClient CoreNamespaces namespace (cluster w) = (err, s1)"
    by (cases "api_get kubeClient CoreNamespaces namespace (cluster w)")
  note cg = call_get_unfold [OF g]
  show ?thesis
  proof (cases err)
    case None
    have run: "createNamespace kubeClient namespace w =
                 (None, \<lparr>trace = trace w @ [(GetCall CoreNamespaces namespace, Succeeded)],
                         cluster = s1\<rparr>)"
      using cg None by (simp add: createNamespace_def response_of_def)
    show ?thesis
      apply (rule exI [of _ err], rule exI [of _ s1])
      apply (simp only: run g)
      apply (simp add: None issued_def)
      done
  next
    case (Some e)
    show ?thesis
    proof (cases "isResourceNotExist e")
      case False
      have run: "createNamespace kubeClient namespace w =
                   (Some e, \<lparr>trace = trace w @ [(GetCall CoreNamespaces namespace, Failed e)],
                             cluster = s1\<rparr>)"
        using cg Some False by (simp add: createNamespace_def response_of_def)
      show ?thesis
        apply (rule exI [of _ err], rule exI [of _ s1])
        apply (simp only: run g)
        apply (simp add: Some False issued_def)
        done
    next
      case True
      obtain err2 s2 where
        c: "api_create kubeClient CoreNamespaces (V1Namespace namespace) s1 = (err2, s2)"
        by (cases "api_create kubeClient CoreNamespaces (V1Namespace namespace) s1")
      have run: "createNamespace kubeClient namespace w =
                   (err2, \<lparr>trace = trace w @ [(GetCall CoreNamespaces namespace, Failed e),
                                              (CreateCall CoreNamespaces (V1Namespace namespace),
                                               response_of err2)],
                           cluster = s2\<rparr>)"
        using cg Some True c by (simp add: createNamespace_def call_create_def response_of_def)
      show ?thesis
        apply (rule exI [of _ err], rule exI [of _ s1])
        apply (simp only: run g)
        apply (simp add: Some True issued_def c)
        done
    qed
  qed
qed

theorem createNamespace_get_or_create_witness:
  "isResourceNotExist (StatusError 404 ''not found'')
   \<and> createNamespace (test_client (\<lambda>n. Some (StatusError 404 ''not found'')) {} []) ''prod'' world0 =
       (None, \<lparr>trace = [(GetCall CoreNamespaces ''prod'', Failed (StatusError 404 ''not found'')),
                        (CreateCall CoreNamespaces (V1Namespace ''prod''), Succeeded)],
               cluster = 2\<rparr>)
   \<and> createNamespace (test_client (\<lambda>n. None) {} []) ''prod'' world0 =
       (None, \<lparr>trace = [(GetCall CoreNamespaces ''prod'', Succeeded)], cluster = 1\<rparr>)
   \<and> \<not> isResourceNotExist (StatusError 500 ''boom'')
   \<and> createNamespace (test_client (\<lambda>n. Some (StatusError 500 ''boom'')) {} []) ''prod'' world0 =
       (Some (StatusError 500 ''boom''),
        \<lparr>trace = [(GetCall CoreNamespaces ''prod'', Failed (StatusError 500 ''boom''))],
         cluster = 1\<rparr>)"
  using createNamespace_get_or_create
          [of "test_client (\<lambda>n. Some (StatusError 404 ''not found'')) {} []" "''prod''" world0]
        createNamespace_get_or_create [of "test_client (\<lambda>n. None) {} []" "''prod''" world0]
        createNamespace_get_or_create
          [of "test_client (\<lambda>n. Some (StatusError 500 ''boom'')) {} []" "''prod''" world0]
  by (simp add: test_client_def world0_def response_of_def)

section \<open>Cascade deletes\<close>




text \<open>
  C8. Between the parent delete and the child list of both cascades the selector string is
  parsed: whenever the parent delete succeeded and parsing \<open>name=<name>\<close> (for a
  deployment) or \<open>job-name=<name>\<close> (for a job) fails, the function returns the parse
  error, and the parent delete is the only call it has issued: no list and no child delete.
\<close>

theorem cascade_parse_failure:
  "(api_delete kubeClient (ExtensionsDeployments namespace) name (NewDeleteOptions 0) (cluster w)
      = (None, s)
    \<and> labels_Parse (''name='' @ name) = Inl err \<longrightarrow>
      destroyDeployment labels_Parse kubeClient name namespace w =
        (Some err,
         \<lparr>trace = trace w @ [(DeleteCall (ExtensionsDeployments namespace) name
                                (NewDeleteOptions 0), Succeeded)],
          cluster = s\<rparr>))
   \<and> (api_delete kubeClient (BatchJobs namespace) name (NewDeleteOptions 0) (cluster w)
      = (None, s')
    \<and> labels_Parse (''job-name='' @ name) = Inl err' \<longrightarrow>
      destroyJob labels_Parse kubeClient name namespace w =
        (Some err',
         \<lparr>trace = trace w @ [(DeleteCall (BatchJobs namespace) name
                                (NewDeleteOptions 0), Succeeded)],
          cluster = s'\<rparr>))"
  apply (rule conjI)
   apply (rule impI)
   apply (erule conjE)
   apply (erule (1) parse_failure_deployment)
  apply (rule impI)
  apply (erule conjE)
  apply (erule (1) parse_failure_job)
  done

theorem cascade_parse_failure_witness:
  "api_delete (test_client (\<lambda>n. None) {} [''rs-1'']) (ExtensionsDeployments ''prod'') ''my app''
      (NewDeleteOptions 0) (cluster world0) = (None, 1)
   \<and> test_parse (''name='' @ ''my app'') = Inl (OtherError ''parse failed'')
   \<and> destroyDeployment test_parse (test_client (\<lambda>n. None) {} [''rs-1'']) ''my app'' ''prod'' world0 =
        (Some (OtherError ''parse failed''),
         \<lparr>trace = [(DeleteCall (ExtensionsDeployments ''prod'') ''my app'' (NewDeleteOptions 0),
                    Succeeded)],
          cluster = 1\<rparr>)
   \<and> api_delete (test_client (\<lambda>n. None) {} [''rs-1'']) (BatchJobs ''prod'') ''my app''
      (NewDeleteOptions 0) (cluster world0) = (None, 1)
   \<and> test_parse (''job-name='' @ ''my app'') = Inl (OtherError ''parse failed'')
   \<and> destroyJob test_parse (test_client (\<lambda>n. None) {} [''rs-1'']) ''my app'' ''prod'' world0 =
        (Some (OtherError ''parse failed''),
         \<lparr>trace = [(DeleteCall (BatchJobs ''prod'') ''my app'' (NewDeleteOptions 0), Succeeded)],
          cluster = 1\<rparr>)"
  using cascade_parse_failure
          [of "test_client (\<lambda>n. None) {} [''rs-1'']" "''prod''" "''my app''" world0 1
              test_parse "OtherError ''parse failed''" 1 "OtherError ''parse failed''"]
  by (simp add: test_client_def test_parse_def world0_def)

section \<open>Grace period of deletes\<close>

lemma call_delete_unfold:
  "call_delete kubeClient c name opts w =
     (fst (api_delete kubeClient c name opts (cluster w)),
      \<lparr>trace = trace w @ [(DeleteCall c name opts,
                           response_of (fst (api_delete kubeClient c name opts (cluster w))))],
       cluster = snd (api_delete kubeClient c name opts (cluster w))\<rparr>)"
  by (simp add: call_delete_def split: prod.splits)

lemma destroyResource_log_zero_grace:
  "trace (snd (destroyResource labels_Parse kubeClient kind name namespace w)) =
     trace w @ issued w (snd (destroyResource labels_Parse kubeClient kind name namespace w))
   \<and> list_all (\<lambda>ev. zero_grace (fst ev))
        (issued w (snd (destroyResource labels_Parse kubeClient kind name namespace w)))
   \<and> (kind = ''service'' \<longrightarrow>
        map fst (issued w (snd (destroyResource labels_Parse kubeClient kind name namespace w))) =
          [DeleteCall (CoreServices namespace) name (NewDeleteOptions 0)])
   \<and> (kind = ''persistentvolumeclaim'' \<longrightarrow>
        map fst (issued w (snd (destroyResource labels_Parse kubeClient kind name namespace w))) =
          [DeleteCall (CorePersistentVolumeClaims namespace) name (NewDeleteOptions 0)])
   \<and> (kind = ''configmap'' \<longrightarrow>
        map fst (issued w (snd (destroyResource labels_Parse kubeClient kind name namespace w))) =
          [DeleteCall (CoreConfigMaps namespace) name (NewDeleteOptions 0)])
   \<and> (kind = ''petset'' \<longrightarrow>
        map fst (issued w (snd (destroyResource labels_Parse kubeClient kind name namespace w))) =
          [DeleteCall (AppsPetSets namespace) name (NewDeleteOptions 0)])
   \<and> (kind = ''deployment'' \<longrightarrow>
        map fst (take 1 (issued w
           (snd (destroyResource labels_Parse kubeClient kind name namespace w)))) =
          [DeleteCall (ExtensionsDeployments namespace) name (NewDeleteOptions 0)])
   \<and> (kind = ''job'' \<longrightarrow>
        map fst (take 1 (issued w
           (snd (destroyResource labels_Parse kubeClient kind name namespace w)))) =
          [DeleteCall (BatchJobs namespace) name (NewDeleteOptions 0)])"
proof -
  let ?run = "destroyResource labels_Parse kubeClient kind name namespace w"
  consider (dep) "kind = ''deployment''" | (job) "kind = ''job''"
    | (single) "kind \<in> {''service'', ''persistentvolumeclaim'', ''configmap'', ''petset''}"
    | (other) "kind \<notin> recognized_kinds"
    by (auto simp: recognized_kinds_def)
  then show ?thesis
  proof cases
    case dep
    have run: "?run = destroyDeployment labels_Parse kubeClient name namespace w"
      using dep by (simp add: destroyResource_def)
    from destroyDeployment_zero_grace [of labels_Parse kubeClient name namespace w]
    obtain resp evs where ev:
      "trace (snd (destroyDeployment labels_Parse kubeClient name namespace w)) =
         trace w @ (DeleteCall (ExtensionsDeployments namespace) name (NewDeleteOptions 0), resp) # evs
       \<and> list_all (\<lambda>ev. zero_grace (fst ev)) evs"
      by (elim exE)
    have iss: "issued w (snd ?run) =
                 (DeleteCall (ExtensionsDeployments namespace) name (NewDeleteOptions 0), resp) # evs"
      unfolding run using ev [THEN conjunct1] by (rule issued_append)
    have tr: "trace (snd ?run) = trace w @ issued w (snd ?run)"
      unfolding iss unfolding run by (rule ev [THEN conjunct1])
    have za: "list_all (\<lambda>ev. zero_grace (fst ev)) (issued w (snd ?run))"
      unfolding iss using ev [THEN conjunct2] by simp
    have first: "map fst (take 1 (issued w (snd ?run))) =
                   [DeleteCall (ExtensionsDeployments namespace) name (NewDeleteOptions 0)]"
      unfolding iss by simp
    show ?thesis
      using tr za first dep by simp
  next
    case job
    have run: "?run = destroyJob labels_Parse kubeClient name namespace w"
      using job by (simp add: destroyResource_def)
    from destroyJob_zero_grace [of labels_Parse kubeClient name namespace w]
    obtain resp evs where ev:
      "trace (snd (destroyJob labels_Parse kubeClient name namespace w)) =
         trace w @ (DeleteCall (BatchJobs namespace) name (NewDeleteOptions 0), resp) # evs
       \<and> list_all (\<lambda>ev. zero_grace (fst ev)) evs"
      by (elim exE)
    have iss: "issued w (snd ?run) =
                 (DeleteCall (BatchJobs namespace) name (NewDeleteOptions 0), resp) # evs"
      unfolding run using ev [THEN conjunct1] by (rule issued_append)
    have tr: "trace (snd ?run) = trace w @ issued w (snd ?run)"
      unfolding iss unfolding run by (rule ev [THEN conjunct1])
    have za: "list_all (\<lambda>ev. zero_grace (fst ev)) (issued w (snd ?run))"
      unfolding iss using ev [THEN conjunct2] by simp
    have first: "map fst (take 1 (issued w (snd ?run))) =
                   [DeleteCall (BatchJobs namespace) name (NewDeleteOptions 0)]"
      unfolding iss by simp
    show ?thesis
      using tr za first job by simp
  next
    case single
    then show ?thesis
      by (auto simp: destroyResource_def call_delete_unfold issued_def Let_def)
  next
    case other
    then show ?thesis
      by (simp add: recognized_kinds_def destroyResource_def issued_def Let_def)
  qed
qed

text \<open>
  C6. Every delete that \<^verbatim>\<open>destroyResource\<close> hands to the cluster is made with
  \<^verbatim>\<open>api.NewDeleteOptions(0)\<close>, a grace period of zero. For a service, persistent volume
  claim, config map or pet set the run is exactly one such delete. For a deployment and a
  job the run is the parent delete with these options and, when it succeeds, the selector
  parses and the list succeeds, one delete with these options per child returned; no other
  delete is made, and every delete in the log carries these options.
\<close>

theorem destroyResource_zero_grace:
  "(kind = ''service'' \<longrightarrow>
      destroyResource labels_Parse kubeClient kind name namespace w =
        (fst (api_delete kubeClient (CoreServices namespace) name (NewDeleteOptions 0) (cluster w)),
         \<lparr>trace = trace w @
            [(DeleteCall (CoreServices namespace) name (NewDeleteOptions 0),
              response_of (fst (api_delete kubeClient (CoreServices namespace) name (NewDeleteOptions 0) (cluster w))))],
          cluster = snd (api_delete kubeClient (CoreServices namespace) name (NewDeleteOptions 0) (cluster w))\<rparr>))
   \<and> (kind = ''persistentvolumeclaim'' \<longrightarrow>
      destroyResource labels_Parse kubeClient kind name namespace w =
        (fst (api_delete kubeClient (CorePersistentVolumeClaims namespace) name (NewDeleteOptions 0) (cluster w)),
         \<lparr>trace = trace w @
            [(DeleteCall (CorePersistentVolumeClaims namespace) name (NewDeleteOptions 0),
              response_of (fst (api_delete kubeClient (CorePersistentVolumeClaims namespace) name (NewDeleteOptions 0) (cluster w))))],
          cluster = snd (api_delete kubeClient (CorePersistentVolumeClaims namespace) name (NewDeleteOptions 0) (cluster w))\<rparr>))
   \<and> (kind = ''configmap'' \<longrightarrow>
      destroyResource labels_Parse kubeClient kind name namespace w =
        (fst (api_delete kubeClient (CoreConfigMaps namespace) name (NewDeleteOptions 0) (cluster w)),
         \<lparr>trace = trace w @
            [(DeleteCall (CoreConfigMaps namespace) name (NewDeleteOptions 0),
              response_of (fst (api_delete kubeClient (CoreConfigMaps namespace) name (NewDeleteOptions 0) (cluster w))))],
          cluster = snd (api_delete kubeClient (CoreConfigMaps namespace) name (NewDeleteOptions 0) (cluster w))\<rparr>))
   \<and> (kind = ''petset'' \<longrightarrow>
      destroyResource labels_Parse kubeClient kind name namespace w =
        (fst (api_delete kubeClient (AppsPetSets namespace) name (NewDeleteOptions 0) (cluster w)),
         \<lparr>trace = trace w @
            [(DeleteCall (AppsPetSets namespace) name (NewDeleteOptions 0),
              response_of (fst (api_delete kubeClient (AppsPetSets namespace) name (NewDeleteOptions 0) (cluster w))))],
          cluster = snd (api_delete kubeClient (AppsPetSets namespace) name (NewDeleteOptions 0) (cluster w))\<rparr>))
   \<and> (kind = ''deployment'' \<longrightarrow>
      (\<forall>e s1.
        api_delete kubeClient (ExtensionsDeployments namespace) name (NewDeleteOptions 0) (cluster w) = (Some e, s1) \<longrightarrow>
        destroyResource labels_Parse kubeClient kind name namespace w =
          (Some e, \<lparr>trace = trace w @ [(DeleteCall (ExtensionsDeployments namespace) name (NewDeleteOptions 0), Failed e)], cluster = s1\<rparr>))
    \<and> (\<forall>perr s1.
        api_delete kubeClient (ExtensionsDeployments namespace) name (NewDeleteOptions 0) (cluster w) = (None, s1)
        \<and> labels_Parse (''name='' @ name) = Inl perr \<longrightarrow>
        destroyResource labels_Parse kubeClient kind name namespace w =
          (Some perr, \<lparr>trace = trace w @ [(DeleteCall (ExtensionsDeployments namespace) name (NewDeleteOptions 0), Succeeded)], cluster = s1\<rparr>))
    \<and> (\<forall>selector e s1 s2.
        api_delete kubeClient (ExtensionsDeployments namespace) name (NewDeleteOptions 0) (cluster w) = (None, s1)
        \<and> labels_Parse (''name='' @ name) = Inr selector
        \<and> api_list kubeClient (ExtensionsReplicaSets namespace) (ListOptions selector) s1 = (Inl e, s2) \<longrightarrow>
        destroyResource labels_Parse kubeClient kind name namespace w =
          (Some e,
           \<lparr>trace = trace w @ [(DeleteCall (ExtensionsDeployments namespace) name (NewDeleteOptions 0), Succeeded),
                               (ListCall (ExtensionsReplicaSets namespace) (ListOptions selector), Failed e)],
            cluster = s2\<rparr>))
    \<and> (\<forall>selector items s1 s2.
        api_delete kubeClient (ExtensionsDeployments namespace) name (NewDeleteOptions 0) (cluster w) = (None, s1)
        \<and> labels_Parse (''name='' @ name) = Inr selector
        \<and> api_list kubeClient (ExtensionsReplicaSets namespace) (ListOptions selector) s1 = (Inr items, s2) \<longrightarrow>
        destroyResource labels_Parse kubeClient kind name namespace w =
          (fst (issue_deletes kubeClient (ExtensionsReplicaSets namespace) (NewDeleteOptions 0) items s2),
           \<lparr>trace = trace w @ (DeleteCall (ExtensionsDeployments namespace) name (NewDeleteOptions 0), Succeeded)
                               # (ListCall (ExtensionsReplicaSets namespace) (ListOptions selector), Items items)
                               # fst (snd (issue_deletes kubeClient (ExtensionsReplicaSets namespace) (NewDeleteOptions 0) items s2)),
            cluster = snd (snd (issue_deletes kubeClient (ExtensionsReplicaSets namespace) (NewDeleteOptions 0) items s2))\<rparr>)))
   \<and> (kind = ''job'' \<longrightarrow>
      (\<forall>e s1.
        api_delete kubeClient (BatchJobs namespace) name (NewDeleteOptions 0) (cluster w) = (Some e, s1) \<longrightarrow>
        destroyResource labels_Parse kubeClient kind name namespace w =
          (Some e, \<lparr>trace = trace w @ [(DeleteCall (BatchJobs namespace) name (NewDeleteOptions 0), Failed e)], cluster = s1\<rparr>))
    \<and> (\<forall>perr s1.
        api_delete kubeClient (BatchJobs namespace) name (NewDeleteOptions 0) (cluster w) = (None, s1)
        \<and> labels_Parse (''job-name='' @ name) = Inl perr \<longrightarrow>
        destroyResource labels_Parse kubeClient kind name namespace w =
          (Some perr, \<lparr>trace = trace w @ [(DeleteCall (BatchJobs namespace) name (NewDeleteOptions 0), Succeeded)], cluster = s1\<rparr>))
    \<and> (\<forall>selector e s1 s2.
        api_delete kubeClient (BatchJobs namespace) name (NewDeleteOptions 0) (cluster w) = (None, s1)
        \<and> labels_Parse (''job-name='' @ name) = Inr selector
        \<and> api_list kubeClient (CorePods namespace) (ListOptions selector) s1 = (Inl e, s2) \<longrightarrow>
        destroyResource labels_Parse kubeClient kind name namespace w =
          (Some e,
           \<lparr>trace = trace w @ [(DeleteCall (BatchJobs namespace) name (NewDeleteOptions 0), Succeeded),
                               (ListCall (CorePods namespace) (ListOptions selector), Failed e)],
            cluster = s2\<rparr>))
    \<and> (\<forall>selector items s1 s2.
        api_delete kubeClient (BatchJobs namespace) name (NewDeleteOptions 0) (cluster w) = (None, s1)
        \<and> labels_Parse (''job-name='' @ name) = Inr selector
        \<and> api_list kubeClient (CorePods namespace) (ListOptions selector) s1 = (Inr items, s2) \<longrightarrow>
        destroyResource labels_Parse kubeClient kind name namespace w =
          (fst (issue_deletes kubeClient (CorePods namespace) (NewDeleteOptions 0) items s2),
           \<lparr>trace = trace w @ (DeleteCall (BatchJobs namespace) name (NewDeleteOptions 0), Succeeded)
                               # (ListCall (CorePods namespace) (ListOptions selector), Items items)
                               # fst (snd (issue_deletes kubeClient (CorePods namespace) (NewDeleteOptions 0) items s2)),
            cluster = snd (snd (issue_deletes kubeClient (CorePods namespace) (NewDeleteOptions 0) items s2))\<rparr>)))
   \<and> trace (snd (destroyResource labels_Parse kubeClient kind name namespace w)) =
      trace w @ issued w (snd (destroyResource labels_Parse kubeClient kind name namespace w))
   \<and> list_all (\<lambda>ev. zero_grace (fst ev))
      (issued w (snd (destroyResource labels_Parse kubeClient kind name namespace w)))"
  apply (intro conjI)
         apply (simp add: destroyResource_def destroyDeployment_def destroyJob_def call_delete_def
        call_list_def deleteEach_issue response_of_def Let_def split: prod.splits)
        apply (simp add: destroyResource_def destroyDeployment_def destroyJob_def call_delete_def
        call_list_def deleteEach_issue response_of_def Let_def split: prod.splits)
       apply (simp add: destroyResource_def destroyDeployment_def destroyJob_def call_delete_def
        call_list_def deleteEach_issue response_of_def Let_def split: prod.splits)
      apply (simp add: destroyResource_def destroyDeployment_def destroyJob_def call_delete_def
        call_list_def deleteEach_issue response_of_def Let_def split: prod.splits)
     apply (simp add: destroyResource_def destroyDeployment_def destroyJob_def call_delete_def
        call_list_def deleteEach_issue response_of_def Let_def split: prod.splits)
    apply (simp add: destroyResource_def destroyDeployment_def destroyJob_def call_delete_def
        call_list_def deleteEach_issue response_of_def Let_def split: prod.splits)
   apply (rule destroyResource_log_zero_grace [THEN conjunct1])
  apply (rule destroyResource_log_zero_grace [THEN conjunct2, THEN conjunct1])
  done

theorem destroyResource_zero_grace_witness:
  "api_delete (quiet_client [''c1'', ''c2'']) (CoreServices ''prod'') ''web'' (NewDeleteOptions 0) (cluster world0) = (None, 1)
   \<and> destroyResource test_parse (quiet_client [''c1'', ''c2'']) ''service'' ''web'' ''prod'' world0 =
       (None, \<lparr>trace = [(DeleteCall (CoreServices ''prod'') ''web'' (NewDeleteOptions 0), Succeeded)], cluster = 1\<rparr>)
   \<and> api_delete (quiet_client [''c1'', ''c2'']) (CorePersistentVolumeClaims ''prod'') ''web'' (NewDeleteOptions 0) (cluster world0) = (None, 1)
   \<and> destroyResource test_parse (quiet_client [''c1'', ''c2'']) ''persistentvolumeclaim'' ''web'' ''prod'' world0 =
       (None, \<lparr>trace = [(DeleteCall (CorePersistentVolumeClaims ''prod'') ''web'' (NewDeleteOptions 0), Succeeded)], cluster = 1\<rparr>)
   \<and> api_delete (quiet_client [''c1'', ''c2'']) (CoreConfigMaps ''prod'') ''web'' (NewDeleteOptions 0) (cluster world0) = (None, 1)
   \<and> destroyResource test_parse (quiet_client [''c1'', ''c2'']) ''configmap'' ''web'' ''prod'' world0 =
       (None, \<lparr>trace = [(DeleteCall (CoreConfigMaps ''prod'') ''web'' (NewDeleteOptions 0), Succeeded)], cluster = 1\<rparr>)
   \<and> api_delete (quiet_client [''c1'', ''c2'']) (AppsPetSets ''prod'') ''web'' (NewDeleteOptions 0) (cluster world0) = (None, 1)
   \<and> destroyResource test_parse (quiet_client [''c1'', ''c2'']) ''petset'' ''web'' ''prod'' world0 =
       (None, \<lparr>trace = [(DeleteCall (AppsPetSets ''prod'') ''web'' (NewDeleteOptions 0), Succeeded)], cluster = 1\<rparr>)
   \<and> api_delete (quiet_client [''c1'', ''c2'']) (ExtensionsDeployments ''prod'') ''web'' (NewDeleteOptions 0) (cluster world0) = (None, 1)
   \<and> test_parse (''name='' @ ''web'') = Inr ''name=web''
   \<and> api_list (quiet_client [''c1'', ''c2'']) (ExtensionsReplicaSets ''prod'') (ListOptions ''name=web'') 1 = (Inr [''c1'', ''c2''], 2)
   \<and> issue_deletes (quiet_client [''c1'', ''c2'']) (ExtensionsReplicaSets ''prod'') (NewDeleteOptions 0) [''c1'', ''c2''] 2 =
       (None, [(DeleteCall (ExtensionsReplicaSets ''prod'') ''c1'' (NewDeleteOptions 0), Succeeded),
               (DeleteCall (ExtensionsReplicaSets ''prod'') ''c2'' (NewDeleteOptions 0), Succeeded)], 4)
   \<and> destroyResource test_parse (quiet_client [''c1'', ''c2'']) ''deployment'' ''web'' ''prod'' world0 =
       (None,
        \<lparr>trace = [(DeleteCall (ExtensionsDeployments ''prod'') ''web'' (NewDeleteOptions 0), Succeeded),
                  (ListCall (ExtensionsReplicaSets ''prod'') (ListOptions ''name=web''), Items [''c1'', ''c2'']),
                  (DeleteCall (ExtensionsReplicaSets ''prod'') ''c1'' (NewDeleteOptions 0), Succeeded),
                  (DeleteCall (ExtensionsReplicaSets ''prod'') ''c2'' (NewDeleteOptions 0), Succeeded)],
         cluster = 4\<rparr>)
   \<and> api_delete (test_client (\<lambda>n. None) {''web''} [''c1'', ''c2'']) (ExtensionsDeployments ''prod'') ''web'' (NewDeleteOptions 0) (cluster world0) =
       (Some (OtherError ''delete failed''), 1)
   \<and> destroyResource test_parse (test_client (\<lambda>n. None) {''web''} [''c1'', ''c2'']) ''deployment'' ''web'' ''prod'' world0 =
       (Some (OtherError ''delete failed''),
        \<lparr>trace = [(DeleteCall (ExtensionsDeployments ''prod'') ''web'' (NewDeleteOptions 0), Failed (OtherError ''delete failed''))], cluster = 1\<rparr>)
   \<and> api_delete (quiet_client [''c1'', ''c2'']) (ExtensionsDeployments ''prod'') ''my app'' (NewDeleteOptions 0) (cluster world0) = (None, 1)
   \<and> test_parse (''name='' @ ''my app'') = Inl (OtherError ''parse failed'')
   \<and> destroyResource test_parse (quiet_client [''c1'', ''c2'']) ''deployment'' ''my app'' ''prod'' world0 =
       (Some (OtherError ''parse failed''),
        \<lparr>trace = [(DeleteCall (ExtensionsDeployments ''prod'') ''my app'' (NewDeleteOptions 0), Succeeded)], cluster = 1\<rparr>)
   \<and> api_delete (test_client (\<lambda>n. None) {''name=web'', ''job-name=web''} [''c1'', ''c2'']) (ExtensionsDeployments ''prod'') ''web'' (NewDeleteOptions 0) (cluster world0) = (None, 1)
   \<and> api_list (test_client (\<lambda>n. None) {''name=web'', ''job-name=web''} [''c1'', ''c2'']) (ExtensionsReplicaSets ''prod'') (ListOptions ''name=web'') 1 =
       (Inl (OtherError ''list failed''), 2)
   \<and> destroyResource test_parse (test_client (\<lambda>n. None) {''name=web'', ''job-name=web''} [''c1'', ''c2'']) ''deployment'' ''web'' ''prod'' world0 =
       (Some (OtherError ''list failed''),
        \<lparr>trace = [(DeleteCall (ExtensionsDeployments ''prod'') ''web'' (NewDeleteOptions 0), Succeeded),
                  (ListCall (ExtensionsReplicaSets ''prod'') (ListOptions ''name=web''), Failed (OtherError ''list failed''))],
         cluster = 2\<rparr>)
   \<and> api_delete (quiet_client [''c1'', ''c2'']) (BatchJobs ''prod'') ''web'' (NewDeleteOptions 0) (cluster world0) = (None, 1)
   \<and> test_parse (''job-name='' @ ''web'') = Inr ''job-name=web''
   \<and> api_list (quiet_client [''c1'', ''c2'']) (CorePods ''prod'') (ListOptions ''job-name=web'') 1 = (Inr [''c1'', ''c2''], 2)
   \<and> issue_deletes (quiet_client [''c1'', ''c2'']) (CorePods ''prod'') (NewDeleteOptions 0) [''c1'', ''c2''] 2 =
       (None, [(DeleteCall (CorePods ''prod'') ''c1'' (NewDeleteOptions 0), Succeeded),
               (DeleteCall (CorePods ''prod'') ''c2'' (NewDeleteOptions 0), Succeeded)], 4)
   \<and> destroyResource test_parse (quiet_client [''c1'', ''c2'']) ''job'' ''web'' ''prod'' world0 =
       (None,
        \<lparr>trace = [(DeleteCall (BatchJobs ''prod'') ''web'' (NewDeleteOptions 0), Succeeded),
                  (ListCall (CorePods ''prod'') (ListOptions ''job-name=web''), Items [''c1'', ''c2'']),
                  (DeleteCall (CorePods ''prod'') ''c1'' (NewDeleteOptions 0), Succeeded),
                  (DeleteCall (CorePods ''prod'') ''c2'' (NewDeleteOptions 0), Succeeded)],
         cluster = 4\<rparr>)
   \<and> api_delete (test_client (\<lambda>n. None) {''web''} [''c1'', ''c2'']) (BatchJobs ''prod'') ''web'' (NewDeleteOptions 0) (cluster world0) =
       (Some (OtherError ''delete failed''), 1)
   \<and> destroyResource test_parse (test_client (\<lambda>n. None) {''web''} [''c1'', ''c2'']) ''job'' ''web'' ''prod'' world0 =
       (Some (OtherError ''delete failed''),
        \<lparr>trace = [(DeleteCall (BatchJobs ''prod'') ''web'' (NewDeleteOptions 0), Failed (OtherError ''delete failed''))], cluster = 1\<rparr>)
   \<and> api_delete (quiet_client [''c1'', ''c2'']) (BatchJobs ''prod'') ''my app'' (NewDeleteOptions 0) (cluster world0) = (None, 1)
   \<and> test_parse (''job-name='' @ ''my app'') = Inl (OtherError ''parse failed'')
   \<and> destroyResource test_parse (quiet_client [''c1'', ''c2'']) ''job'' ''my app'' ''prod'' world0 =
       (Some (OtherError ''parse failed''),
        \<lparr>trace = [(DeleteCall (BatchJobs ''prod'') ''my app'' (NewDeleteOptions 0), Succeeded)], cluster = 1\<rparr>)
   \<and> api_delete (test_client (\<lambda>n. None) {''name=web'', ''job-name=web''} [''c1'', ''c2'']) (BatchJobs ''prod'') ''web'' (NewDeleteOptions 0) (cluster world0) = (None, 1)
   \<and> api_list (test_client (\<lambda>n. None) {''name=web'', ''job-name=web''} [''c1'', ''c2'']) (CorePods ''prod'') (ListOptions ''job-name=web'') 1 =
       (Inl (OtherError ''list failed''), 2)
   \<and> destroyResource test_parse (test_client (\<lambda>n. None) {''name=web'', ''job-name=web''} [''c1'', ''c2'']) ''job'' ''web'' ''prod'' world0 =
       (Some (OtherError ''list failed''),
        \<lparr>trace = [(DeleteCall (BatchJobs ''prod'') ''web'' (NewDeleteOptions 0), Succeeded),
                  (ListCall (CorePods ''prod'') (ListOptions ''job-name=web''), Failed (OtherError ''list failed''))],
         cluster = 2\<rparr>)"
proof -
  have run:
    "api_delete (quiet_client [''c1'', ''c2'']) (CoreServices ''prod'') ''web'' (NewDeleteOptions 0) (cluster world0) = (None, 1)"
    "destroyResource test_parse (quiet_client [''c1'', ''c2'']) ''service'' ''web'' ''prod'' world0 =
         (None, \<lparr>trace = [(DeleteCall (CoreServices ''prod'') ''web'' (NewDeleteOptions 0), Succeeded)], cluster = 1\<rparr>)"
    "api_delete (quiet_client [''c1'', ''c2'']) (CorePersistentVolumeClaims ''prod'') ''web'' (NewDeleteOptions 0) (cluster world0) = (None, 1)"
    "destroyResource test_parse (quiet_client [''c1'', ''c2'']) ''persistentvolumeclaim'' ''web'' ''prod'' world0 =
         (None, \<lparr>trace = [(DeleteCall (CorePersistentVolumeClaims ''prod'') ''web'' (NewDeleteOptions 0), Succeeded)], cluster = 1\<rparr>)"
    "api_delete (quiet_client [''c1'', ''c2'']) (CoreConfigMaps ''prod'') ''web'' (NewDeleteOptions 0) (cluster world0) = (None, 1)"
    "destroyResource test_parse (quiet_client [''c1'', ''c2'']) ''configmap'' ''web'' ''prod'' world0 =
         (None, \<lparr>trace = [(DeleteCall (CoreConfigMaps ''prod'') ''web'' (NewDeleteOptions 0), Succeeded)], cluster = 1\<rparr>)"
    "api_delete (quiet_client [''c1'', ''c2'']) (AppsPetSets ''prod'') ''web'' (NewDeleteOptions 0) (cluster world0) = (None, 1)"
    "destroyResource test_parse (quiet_client [''c1'', ''c2'']) ''petset'' ''web'' ''prod'' world0 =
         (None, \<lparr>trace = [(DeleteCall (AppsPetSets ''prod'') ''web'' (NewDeleteOptions 0), Succeeded)], cluster = 1\<rparr>)"
    "api_delete (quiet_client [''c1'', ''c2'']) (ExtensionsDeployments ''prod'') ''web'' (NewDeleteOptions 0) (cluster world0) = (None, 1)"
    "test_parse (''name='' @ ''web'') = Inr ''name=web''"
    "api_list (quiet_client [''c1'', ''c2'']) (ExtensionsReplicaSets ''prod'') (ListOptions ''name=web'') 1 = (Inr [''c1'', ''c2''], 2)"
    "issue_deletes (quiet_client [''c1'', ''c2'']) (ExtensionsReplicaSets ''prod'') (NewDeleteOptions 0) [''c1'', ''c2''] 2 =
         (None, [(DeleteCall (ExtensionsReplicaSets ''prod'') ''c1'' (NewDeleteOptions 0), Succeeded),
                 (DeleteCall (ExtensionsReplicaSets ''prod'') ''c2'' (NewDeleteOptions 0), Succeeded)], 4)"
    "destroyResource test_parse (quiet_client [''c1'', ''c2'']) ''deployment'' ''web'' ''prod'' world0 =
         (None,
          \<lparr>trace = [(DeleteCall (ExtensionsDeployments ''prod'') ''web'' (NewDeleteOptions 0), Succeeded),
                    (ListCall (ExtensionsReplicaSets ''prod'') (ListOptions ''name=web''), Items [''c1'', ''c2'']),
                    (DeleteCall (ExtensionsReplicaSets ''prod'') ''c1'' (NewDeleteOptions 0), Succeeded),
                    (DeleteCall (ExtensionsReplicaSets ''prod'') ''c2'' (NewDeleteOptions 0), Succeeded)],
           cluster = 4\<rparr>)"
    "api_delete (test_client (\<lambda>n. None) {''web''} [''c1'', ''c2'']) (ExtensionsDeployments ''prod'') ''web'' (NewDeleteOptions 0) (cluster world0) =
         (Some (OtherError ''delete failed''), 1)"
    "destroyResource test_parse (test_client (\<lambda>n. None) {''web''} [''c1'', ''c2'']) ''deployment'' ''web'' ''prod'' world0 =
         (Some (OtherError ''delete failed''),
          \<lparr>trace = [(DeleteCall (ExtensionsDeployments ''prod'') ''web'' (NewDeleteOptions 0), Failed (OtherError ''delete failed''))], cluster = 1\<rparr>)"
    "api_delete (quiet_client [''c1'', ''c2'']) (ExtensionsDeployments ''prod'') ''my app'' (NewDeleteOptions 0) (cluster world0) = (None, 1)"
    "test_parse (''name='' @ ''my app'') = Inl (OtherError ''parse failed'')"
    "destroyResource test_parse (quiet_client [''c1'', ''c2'']) ''deployment'' ''my app'' ''prod'' world0 =
         (Some (OtherError ''parse failed''),
          \<lparr>trace = [(DeleteCall (ExtensionsDeployments ''prod'') ''my app'' (NewDeleteOptions 0), Succeeded)], cluster = 1\<rparr>)"
    "api_delete (test_client (\<lambda>n. None) {''name=web'', ''job-name=web''} [''c1'', ''c2'']) (ExtensionsDeployments ''prod'') ''web'' (NewDeleteOptions 0) (cluster world0) = (None, 1)"
    "api_list (test_client (\<lambda>n. None) {''name=web'', ''job-name=web''} [''c1'', ''c2'']) (ExtensionsReplicaSets ''prod'') (ListOptions ''name=web'') 1 =
         (Inl (OtherError ''list failed''), 2)"
    "destroyResource test_parse (test_client (\<lambda>n. None) {''name=web'', ''job-name=web''} [''c1'', ''c2'']) ''deployment'' ''web'' ''prod'' world0 =
         (Some (OtherError ''list failed''),
          \<lparr>trace = [(DeleteCall (ExtensionsDeployments ''prod'') ''web'' (NewDeleteOptions 0), Succeeded),
                    (ListCall (ExtensionsReplicaSets ''prod'') (ListOptions ''name=web''), Failed (OtherError ''list failed''))],
           cluster = 2\<rparr>)"
    "api_delete (quiet_client [''c1'', ''c2'']) (BatchJobs ''prod'') ''web'' (NewDeleteOptions 0) (cluster world0) = (None, 1)"
    "test_parse (''job-name='' @ ''web'') = Inr ''job-name=web''"
    "api_list (quiet_client [''c1'', ''c2'']) (CorePods ''prod'') (ListOptions ''job-name=web'') 1 = (Inr [''c1'', ''c2''], 2)"
    "issue_deletes (quiet_client [''c1'', ''c2'']) (CorePods ''prod'') (NewDeleteOptions 0) [''c1'', ''c2''] 2 =
         (None, [(DeleteCall (CorePods ''prod'') ''c1'' (NewDeleteOptions 0), Succeeded),
                 (DeleteCall (CorePods ''prod'') ''c2'' (NewDeleteOptions 0), Succeeded)], 4)"
    "destroyResource test_parse (quiet_client [''c1'', ''c2'']) ''job'' ''web'' ''prod'' world0 =
         (None,
          \<lparr>trace = [(DeleteCall (BatchJobs ''prod'') ''web'' (NewDeleteOptions 0), Succeeded),
                    (ListCall (CorePods ''prod'') (ListOptions ''job-name=web''), Items [''c1'', ''c2'']),
                    (DeleteCall (CorePods ''prod'') ''c1'' (NewDeleteOptions 0), Succeeded),
                    (DeleteCall (CorePods ''prod'') ''c2'' (NewDeleteOptions 0), Succeeded)],
           cluster = 4\<rparr>)"
    "api_delete (test_client (\<lambda>n. None) {''web''} [''c1'', ''c2'']) (BatchJobs ''prod'') ''web'' (NewDeleteOptions 0) (cluster world0) =
         (Some (OtherError ''delete failed''), 1)"
    "destroyResource test_parse (test_client (\<lambda>n. None) {''web''} [''c1'', ''c2'']) ''job'' ''web'' ''prod'' world0 =
         (Some (OtherError ''delete failed''),
          \<lparr>trace = [(DeleteCall (BatchJobs ''prod'') ''web'' (NewDeleteOptions 0), Failed (OtherError ''delete failed''))], cluster = 1\<rparr>)"
    "api_delete (quiet_client [''c1'', ''c2'']) (BatchJobs ''prod'') ''my app'' (NewDeleteOptions 0) (cluster world0) = (None, 1)"
    "test_parse (''job-name='' @ ''my app'') = Inl (OtherError ''parse failed'')"
    "destroyResource test_parse (quiet_client [''c1'', ''c2'']) ''job'' ''my app'' ''prod'' world0 =
         (Some (OtherError ''parse failed''),
          \<lparr>trace = [(DeleteCall (BatchJobs ''prod'') ''my app'' (NewDeleteOptions 0), Succeeded)], cluster = 1\<rparr>)"
    "api_delete (test_client (\<lambda>n. None) {''name=web'', ''job-name=web''} [''c1'', ''c2'']) (BatchJobs ''prod'') ''web'' (NewDeleteOptions 0) (cluster world0) = (None, 1)"
    "api_list (test_client (\<lambda>n. None) {''name=web'', ''job-name=web''} [''c1'', ''c2'']) (CorePods ''prod'') (ListOptions ''job-name=web'') 1 =
         (Inl (OtherError ''list failed''), 2)"
    "destroyResource test_parse (test_client (\<lambda>n. None) {''name=web'', ''job-name=web''} [''c1'', ''c2'']) ''job'' ''web'' ''prod'' world0 =
         (Some (OtherError ''list failed''),
          \<lparr>trace = [(DeleteCall (BatchJobs ''prod'') ''web'' (NewDeleteOptions 0), Succeeded),
                    (ListCall (CorePods ''prod'') (ListOptions ''job-name=web''), Failed (OtherError ''list failed''))],
           cluster = 2\<rparr>)"
    by (simp_all add: destroyResource_def destroyDeployment_def destroyJob_def call_delete_def
        call_list_def quiet_client_def test_client_def test_parse_def world0_def response_of_def
        Let_def eval_nat_numeral)
  show ?thesis
    using destroyResource_zero_grace
            [where labels_Parse = test_parse and kind = "''service''" and name = "''web''"
               and namespace = "''prod''" and w = world0 and kubeClient = "quiet_client [''c1'', ''c2'']"]
          destroyResource_zero_grace
            [where labels_Parse = test_parse and kind = "''persistentvolumeclaim''" and name = "''web''"
               and namespace = "''prod''" and w = world0 and kubeClient = "quiet_client [''c1'', ''c2'']"]
          destroyResource_zero_grace
            [where labels_Parse = test_parse and kind = "''configmap''" and name = "''web''"
               and namespace = "''prod''" and w = world0 and kubeClient = "quiet_client [''c1'', ''c2'']"]
          destroyResource_zero_grace
            [where labels_Parse = test_parse and kind = "''petset''" and name = "''web''"
               and namespace = "''prod''" and w = world0 and kubeClient = "quiet_client [''c1'', ''c2'']"]
          destroyResource_zero_grace
            [where labels_Parse = test_parse and kind = "''deployment''" and name = "''web''"
               and namespace = "''prod''" and w = world0 and kubeClient = "quiet_client [''c1'', ''c2'']"]
          destroyResource_zero_grace
            [where labels_Parse = test_parse and kind = "''deployment''" and name = "''web''"
               and namespace = "''prod''" and w = world0 and kubeClient = "test_client (\<lambda>n. None) {''web''} [''c1'', ''c2'']"]
          destroyResource_zero_grace
            [where labels_Parse = test_parse and kind = "''deployment''" and name = "''my app''"
               and namespace = "''prod''" and w = world0 and kubeClient = "quiet_client [''c1'', ''c2'']"]
          destroyResource_zero_grace
            [where labels_Parse = test_parse and kind = "''deployment''" and name = "''web''"
               and namespace = "''prod''" and w = world0 and kubeClient = "test_client (\<lambda>n. None) {''name=web'', ''job-name=web''} [''c1'', ''c2'']"]
          destroyResource_zero_grace
            [where labels_Parse = test_parse and kind = "''job''" and name = "''web''"
               and namespace = "''prod''" and w = world0 and kubeClient = "quiet_client [''c1'', ''c2'']"]
          destroyResource_zero_grace
            [where labels_Parse = test_parse and kind = "''job''" and name = "''web''"
               and namespace = "''prod''" and w = world0 and kubeClient = "test_client (\<lambda>n. None) {''web''} [''c1'', ''c2'']"]
          destroyResource_zero_grace
            [where labels_Parse = test_parse and kind = "''job''" and name = "''my app''"
               and namespace = "''prod''" and w = world0 and kubeClient = "quiet_client [''c1'', ''c2'']"]
          destroyResource_zero_grace
            [where labels_Parse = test_parse and kind = "''job''" and name = "''web''"
               and namespace = "''prod''" and w = world0 and kubeClient = "test_client (\<lambda>n. None) {''name=web'', ''job-name=web''} [''c1'', ''c2'']"]
          run
    by (simp only: run fst_conv snd_conv simp_thms)
qed

section \<open>The loader and the decoder as pass-throughs\<close>

text \<open>
  What the file itself fixes about loading a client: the explicit path handed to
  \<^verbatim>\<open>clientcmd\<close> is the configured file, the context override is the configured context
  (the empty string when none is configured), and the result is the error of
  \<^verbatim>\<open>ClientConfig\<close> or whatever \<^verbatim>\<open>NewForConfig\<close> returns.
\<close>

lemma loadKubernetesClient_passes:
  "loadKubernetesClient ClientConfig NewForConfig config =
     (case ClientConfig \<lparr>ExplicitPath = configFile config\<rparr>
                        \<lparr>CurrentContext = contextName config\<rparr> of
        Inl err \<Rightarrow> Inl err
      | Inr kubeConfig \<Rightarrow> NewForConfig kubeConfig)"
  by (simp add: loadKubernetesClient_def Let_def)

text \<open>
  What the file itself fixes about decoding: the descriptor returned is the zero
  descriptor as \<^verbatim>\<open>yaml.Unmarshal\<close> left it, with no check of its own, and an error of
  \<^verbatim>\<open>yaml.Unmarshal\<close> is returned unchanged.
\<close>

lemma loadKubernetesResource_passes:
  "loadKubernetesResource yaml_Unmarshal data =
     (case fst (yaml_Unmarshal data zero_resource) of
        Some err \<Rightarrow> Inl err
      | None \<Rightarrow> Inr (snd (yaml_Unmarshal data zero_resource)))"
  by (simp add: loadKubernetesResource_def Let_def split: prod.splits option.splits)

end
